theory Spec2Isabelle
  imports Main
begin

section \<open>Python string primitives used by \<open>query.py\<close>\<close>

text \<open>
  A Python \<open>str\<close> is a sequence of code points. It is modelled as a HOL \<open>string\<close>, one
  \<open>char\<close> per code point, which covers the code points U+0000 to U+00FF. The character
  classes below (\<open>isspace\<close>, \<open>isprintable\<close>, \<open>lower\<close>) are those of CPython restricted
  to that range.
\<close>

definition py_isspace :: "char \<Rightarrow> bool" where
  "py_isspace c =
     (let n = (of_char c :: nat)
      in (9 \<le> n \<and> n \<le> 13) \<or> (28 \<le> n \<and> n \<le> 32) \<or> n = 133 \<or> n = 160)"

text \<open>\<open>s.lstrip(...)\<close>, \<open>s.rstrip(...)\<close>, \<open>s.strip(...)\<close> for a class \<open>P\<close> of characters.\<close>

definition lstrip_by :: "(char \<Rightarrow> bool) \<Rightarrow> string \<Rightarrow> string" where
  "lstrip_by P s = dropWhile P s"

definition rstrip_by :: "(char \<Rightarrow> bool) \<Rightarrow> string \<Rightarrow> string" where
  "rstrip_by P s = rev (dropWhile P (rev s))"

definition strip_by :: "(char \<Rightarrow> bool) \<Rightarrow> string \<Rightarrow> string" where
  "strip_by P s = rstrip_by P (lstrip_by P s)"

text \<open>\<open>s.strip()\<close> and \<open>s.rstrip()\<close>: whitespace; \<open>s.strip(chars)\<close>: the characters of \<open>chars\<close>.\<close>

definition py_strip :: "string \<Rightarrow> string" where
  "py_strip s = strip_by py_isspace s"

definition py_rstrip :: "string \<Rightarrow> string" where
  "py_rstrip s = rstrip_by py_isspace s"

definition py_strip_chars :: "string \<Rightarrow> string \<Rightarrow> string" where
  "py_strip_chars chars s = strip_by (\<lambda>c. List.member chars c) s"

text \<open>\<open>sep.join(xs)\<close>.\<close>

fun py_join :: "string \<Rightarrow> string list \<Rightarrow> string" where
  "py_join sep [] = []"
| "py_join sep [x] = x"
| "py_join sep (x # y # ys) = x @ sep @ py_join sep (y # ys)"

text \<open>\<open>s.lower()\<close>: A-Z and the Latin-1 capitals U+00C0 to U+00DE (without U+00D7).\<close>

definition lower_char :: "char \<Rightarrow> char" where
  "lower_char c =
     (let n = (of_char c :: nat)
      in if (65 \<le> n \<and> n \<le> 90) \<or> (192 \<le> n \<and> n \<le> 222 \<and> n \<noteq> 215)
         then char_of (n + 32) else c)"

definition py_lower :: "string \<Rightarrow> string" where
  "py_lower s = map lower_char s"

text \<open>
  Equality up to case with a lower-case ASCII letter \<open>d\<close>: the character is \<open>d\<close> or its
  capital. It words the specification's case-insensitive comparison with \<open>"postgresql"\<close>.
\<close>

definition same_letter :: "char \<Rightarrow> char \<Rightarrow> bool" where
  "same_letter c d = (c = d \<or> (of_char c :: nat) + 32 = of_char d)"

text \<open>\<open>str(n)\<close> for an integer, as the f-string \<open>f"index: {self.idx}"\<close> formats it.\<close>

definition digit_char :: "nat \<Rightarrow> char" where
  "digit_char d = char_of (48 + d)"

fun str_nat :: "nat \<Rightarrow> string" where
  "str_nat n = (if n < 10 then [digit_char n] else str_nat (n div 10) @ [digit_char (n mod 10)])"

declare str_nat.simps [simp del]

definition str_int :: "int \<Rightarrow> string" where
  "str_int i = (if i < 0 then CHR ''-'' # str_nat (nat (- i)) else str_nat (nat i))"

text \<open>
  \<open>repr(s)\<close> for a string (CPython's \<open>unicode_repr\<close>): the delimiter is the single quote
  unless the string holds a single quote and no double quote; the delimiter and the
  backslash are escaped, tab, newline and carriage return get their letter escapes, every
  other non-printable character becomes \<open>\xhh\<close>.
\<close>

definition squote :: char where
  "squote = CHR 0x27"

definition dquote :: char where
  "dquote = CHR 0x22"

definition backslash :: char where
  "backslash = CHR 0x5C"

definition py_isprintable :: "char \<Rightarrow> bool" where
  "py_isprintable c =
     (let n = (of_char c :: nat)
      in (32 \<le> n \<and> n < 127) \<or> (161 \<le> n \<and> n \<noteq> 173))"

definition hex_digit :: "nat \<Rightarrow> char" where
  "hex_digit d = (if d < 10 then char_of (48 + d) else char_of (87 + d))"

definition hex_escape :: "nat \<Rightarrow> string" where
  "hex_escape n = [backslash, CHR ''x'', hex_digit (n div 16), hex_digit (n mod 16)]"

definition repr_char :: "char \<Rightarrow> char \<Rightarrow> string" where
  "repr_char quote ch =
     (let n = (of_char ch :: nat)
      in if ch = quote \<or> ch = backslash then [backslash, ch]
         else if ch = CHR 0x09 then [backslash, CHR ''t'']
         else if ch = CHR 0x0A then [backslash, CHR ''n'']
         else if ch = CHR 0x0D then [backslash, CHR ''r'']
         else if n < 32 \<or> n = 127 then hex_escape n
         else if n < 127 then [ch]
         else if py_isprintable ch then [ch]
         else hex_escape n)"

definition repr_quote :: "string \<Rightarrow> char" where
  "repr_quote s = (if List.member s squote \<and> \<not> List.member s dquote then dquote else squote)"

definition py_repr :: "string \<Rightarrow> string" where
  "py_repr s =
     (let quote = repr_quote s
      in [quote] @ concat (map (repr_char quote) s) @ [quote])"

section \<open>Collaborators\<close>

text \<open>
  The grammars of \<open>pygments.lexers\<close> that \<open>query.py\<close> imports, and the one formatter.
\<close>

datatype lexer = PostgresLexer | Python3Lexer | SqlLexer

datatype formatter = TerminalFormatter

text \<open>
  Modelled from the spec: \<open>StacktraceLine\<close> lives in the module \<open>stacktrace\<close>, which is
  not among the sources. The spec gives a frame a \<open>code\<close> string and a \<open>location()\<close>
  string, and a null sentinel whose \<open>code\<close> and \<open>location()\<close> are both empty. A
  \<open>StackTrace\<close> is an ordered sequence of frames, innermost last.
\<close>

record StacktraceLine =
  code :: string
  location :: string

text \<open>
  Modelled from the spec: \<open>StacktraceLine.null()\<close>, the sentinel for an empty stack trace,
  with empty \<open>code\<close> and empty \<open>location()\<close>.
\<close>

definition null :: StacktraceLine where
  "null = \<lparr>StacktraceLine.code = [], StacktraceLine.location = []\<rparr>"

type_synonym StackTrace = "StacktraceLine list"

text \<open>
  The functions that \<open>query.py\<close> calls and does not define are parameters of the model:
  \<open>pygments.highlight(text, lexer, formatter)\<close>, \<open>sqlparse.format(text, reindent=...)\<close>,
  \<open>TimeDelta.humanize()\<close>, \<open>repr\<close> of a \<open>TimeDelta\<close> and \<open>str\<close> of a \<open>StackTrace\<close>.
  \<open>'d\<close> is the type of a \<open>TimeDelta\<close>.
\<close>

record 'd collaborators =
  highlight :: "string \<Rightarrow> lexer \<Rightarrow> formatter \<Rightarrow> string"
  sqlparse_format :: "string \<Rightarrow> bool \<Rightarrow> string"
  humanize :: "'d \<Rightarrow> string"
  repr_TimeDelta :: "'d \<Rightarrow> string"
  str_StackTrace :: "StackTrace \<Rightarrow> string"

section \<open>The \<open>Query\<close> record\<close>

text \<open>The attrs class \<open>Query\<close>; \<open>'p\<close> is the type of a raw parameter value.\<close>

record ('d, 'p) Query =
  code :: string
  db :: string
  duration :: 'd
  idx :: int
  is_select :: bool
  location :: string
  params :: string
  raw_params :: "'p list"
  sql :: string
  sql_parameterized :: string
  stacktrace :: StackTrace
  start_time :: int
  stop_time :: int
  db_type :: string

text \<open>
  The keyword arguments of \<open>display\<close> and \<open>display_string\<close>, and their defaults as the
  signature of \<open>display_string\<close> gives them.
\<close>

record display_options =
  opt_code :: bool
  opt_duration :: bool
  opt_idx :: bool
  opt_location :: bool
  opt_stacktrace :: bool
  opt_sql :: bool
  opt_colored :: bool
  opt_formatted :: bool

definition default_options :: display_options where
  "default_options =
     \<lparr>opt_code = True, opt_duration = True, opt_idx = False, opt_location = True,
      opt_stacktrace = False, opt_sql = True, opt_colored = True, opt_formatted = True\<rparr>"

subsection \<open>\<open>Query.create\<close>\<close>

definition create ::
  "string \<Rightarrow> 'd \<Rightarrow> int \<Rightarrow> bool \<Rightarrow> string \<Rightarrow> 'p list \<Rightarrow> string \<Rightarrow> string \<Rightarrow> StackTrace
     \<Rightarrow> int \<Rightarrow> int \<Rightarrow> string \<Rightarrow> ('d, 'p) Query" where
  "create db' duration' idx' is_select' params' raw_params' sql' sql_parameterized'
      stacktrace' start_time' stop_time' db_type' =
     (let last_executed_line = (if stacktrace' \<noteq> [] then last stacktrace' else null)
      in \<lparr>code = StacktraceLine.code last_executed_line,
          db = db',
          duration = duration',
          idx = idx',
          is_select = is_select',
          location = StacktraceLine.location last_executed_line,
          params = params',
          raw_params = raw_params',
          sql = sql',
          sql_parameterized = sql_parameterized',
          stacktrace = stacktrace',
          start_time = start_time',
          stop_time = stop_time',
          db_type = db_type'\<rparr>)"

subsection \<open>The methods\<close>

text \<open>
  A method is a function of the receiver that returns its result together with the
  receiver as the call leaves it, so that what a call does to the record is part of the
  model. Where one method calls another, the caller goes on with the receiver the callee
  returned.
\<close>

text \<open>\<open>Query._enhanced_sql\<close>: the value of the local \<open>lexer\<close> after the test of \<open>db_type\<close>.\<close>

definition enhanced_sql_lexer :: "('d, 'p) Query \<Rightarrow> lexer" where
  "enhanced_sql_lexer self =
     (let lexer = SqlLexer
      in if py_lower (db_type self) = ''postgresql'' then PostgresLexer else lexer)"

definition enhanced_sql ::
  "'d collaborators \<Rightarrow> bool \<Rightarrow> bool \<Rightarrow> ('d, 'p) Query \<Rightarrow> string \<times> ('d, 'p) Query" where
  "enhanced_sql E formatted colored self =
     (let lexer = enhanced_sql_lexer self;
          sql0 = sql self;
          sql1 = (if formatted then sqlparse_format E (sql self) True else sql0);
          sql2 = (if colored then highlight E sql1 lexer TerminalFormatter else sql1)
      in (sql2, self))"

text \<open>
  \<open>Query.display_string\<close> up to the last append: the list \<open>attributes\<close> and the receiver.
\<close>

definition display_attributes ::
  "'d collaborators \<Rightarrow> display_options \<Rightarrow> ('d, 'p) Query \<Rightarrow> string list \<times> ('d, 'p) Query" where
  "display_attributes E opts self =
     (let a0 = [];
          a1 = (if opt_idx opts then a0 @ [''index: '' @ str_int (idx self)] else a0);
          a2 = (if opt_duration opts then a1 @ [humanize E (duration self)] else a1);
          a3 = (if opt_location opts then a2 @ [location self] else a2);
          a4 = (if opt_code opts
                then a3 @ [if opt_colored opts \<and> opt_formatted opts
                           then highlight E (code self) Python3Lexer TerminalFormatter
                           else code self]
                else a3);
          a5 = (if opt_stacktrace opts then a4 @ [str_StackTrace E (stacktrace self)] else a4)
      in if opt_sql opts
         then (if opt_colored opts
               then (case enhanced_sql E (opt_formatted opts) (opt_colored opts) self of
                       (s, self') \<Rightarrow> (a5 @ [s], self'))
               else (a5 @ [sql self], self))
         else (a5, self))"

definition blank_line :: string where
  "blank_line = [CHR 0x0A, CHR 0x0A]"

definition display_string ::
  "'d collaborators \<Rightarrow> display_options \<Rightarrow> ('d, 'p) Query \<Rightarrow> string \<times> ('d, 'p) Query" where
  "display_string E opts self =
     (case display_attributes E opts self of
        (attributes, self') \<Rightarrow>
          (let stripped = map py_strip attributes
           in (py_rstrip (py_join blank_line stripped), self')))"

text \<open>\<open>Query.__str__\<close>: \<open>display_string\<close> with no keyword argument.\<close>

definition Query_str :: "'d collaborators \<Rightarrow> ('d, 'p) Query \<Rightarrow> string \<times> ('d, 'p) Query" where
  "Query_str E self = display_string E default_options self"

text \<open>\<open>Query.__repr__\<close>: the local \<open>truncated_sql\<close>, then the formatted string.\<close>

definition truncated_sql :: "('d, 'p) Query \<Rightarrow> string" where
  "truncated_sql self = py_strip_chars [squote] (take 30 (py_repr (sql self)))"

definition Query_repr :: "'d collaborators \<Rightarrow> ('d, 'p) Query \<Rightarrow> string \<times> ('d, 'p) Query" where
  "Query_repr E self =
     (''Query(''
        @ ''idx='' @ str_int (idx self) @ '', ''
        @ ''code='' @ [squote] @ code self @ [squote] @ '', ''
        @ ''duration='' @ repr_TimeDelta E (duration self) @ '', ''
        @ ''location='' @ [squote] @ location self @ [squote] @ '', ''
        @ ''sql='' @ [squote] @ truncated_sql self @ ''...'' @ [squote] @ '')'',
      self)"

subsection \<open>The report as the specification words it\<close>

text \<open>
  The specification's algorithm for the report: the sections whose flag is on, in the order
  index, duration, location, code, stacktrace, sql; each stripped; joined by a blank line;
  the result stripped on the right. It is worded here on its own terms, without the string
  primitives of the model, and compared with \<open>display_string\<close> below.
\<close>

definition spec_code_section :: "'d collaborators \<Rightarrow> display_options \<Rightarrow> ('d, 'p) Query \<Rightarrow> string" where
  "spec_code_section E opts self =
     (if opt_colored opts \<and> opt_formatted opts
      then highlight E (code self) Python3Lexer TerminalFormatter
      else code self)"

definition spec_sql_section :: "'d collaborators \<Rightarrow> display_options \<Rightarrow> ('d, 'p) Query \<Rightarrow> string" where
  "spec_sql_section E opts self =
     (if opt_colored opts
      then fst (enhanced_sql E (opt_formatted opts) True self)
      else sql self)"

definition spec_sections :: "'d collaborators \<Rightarrow> display_options \<Rightarrow> ('d, 'p) Query \<Rightarrow> string list" where
  "spec_sections E opts self =
     map snd (filter fst
       [(opt_idx opts, ''index: '' @ str_int (idx self)),
        (opt_duration opts, humanize E (duration self)),
        (opt_location opts, location self),
        (opt_code opts, spec_code_section E opts self),
        (opt_stacktrace opts, str_StackTrace E (stacktrace self)),
        (opt_sql opts, spec_sql_section E opts self)])"

text \<open>
  The whitespace characters, one by one: tab, line feed, vertical tab, form feed, carriage
  return, the four separators U+001C to U+001F, space, next line and no-break space.
\<close>

definition whitespace_chars :: string where
  "whitespace_chars =
     [CHR 0x09, CHR 0x0A, CHR 0x0B, CHR 0x0C, CHR 0x0D, CHR 0x1C, CHR 0x1D, CHR 0x1E, CHR 0x1F,
      CHR 0x20, CHR 0x85, CHR 0xA0]"

definition whitespace :: "char \<Rightarrow> bool" where
  "whitespace c = List.member whitespace_chars c"

text \<open>
  \<open>t\<close> is \<open>a\<close> stripped of leading and trailing whitespace: \<open>a\<close> is \<open>t\<close> between two runs
  of whitespace, and \<open>t\<close> neither starts nor ends with whitespace. Likewise on the right
  only.
\<close>

definition strips_to :: "string \<Rightarrow> string \<Rightarrow> bool" where
  "strips_to a t =
     (\<exists>pre suf. a = pre @ t @ suf \<and> list_all whitespace pre \<and> list_all whitespace suf
        \<and> (t = [] \<or> (\<not> whitespace (hd t) \<and> \<not> whitespace (last t))))"

definition rstrips_to :: "string \<Rightarrow> string \<Rightarrow> bool" where
  "rstrips_to a t =
     (\<exists>suf. a = t @ suf \<and> list_all whitespace suf \<and> (t = [] \<or> \<not> whitespace (last t)))"

text \<open>The sections with two line feeds between each two neighbours.\<close>

definition join_with_blank_line :: "string list \<Rightarrow> string" where
  "join_with_blank_line xs =
     (case xs of [] \<Rightarrow> [] | x # rest \<Rightarrow> x @ concat (map (\<lambda>y. [CHR 0x0A, CHR 0x0A] @ y) rest))"

text \<open>
  \<open>out\<close> is the report of the sections: each section stripped, the stripped sections
  joined by a blank line, the joined text stripped on the right.
\<close>

definition report_of :: "string list \<Rightarrow> string \<Rightarrow> bool" where
  "report_of sections out =
     (\<exists>stripped. list_all2 strips_to sections stripped
        \<and> rstrips_to (join_with_blank_line stripped) out)"

subsection \<open>Escape sequences\<close>




subsection \<open>Sample data\<close>

text \<open>
  A concrete set of collaborators and two concrete records, on which the theorems are
  evaluated. The sample highlighter brackets the text with a tag of the grammar.
\<close>

definition lexer_tag :: "lexer \<Rightarrow> string" where
  "lexer_tag l = (case l of PostgresLexer \<Rightarrow> ''<pg>'' | Python3Lexer \<Rightarrow> ''<py>'' | SqlLexer \<Rightarrow> ''<sql>'')"

definition sample_collaborators :: "nat collaborators" where
  "sample_collaborators =
     \<lparr>highlight = (\<lambda>s l f. lexer_tag l @ s @ ''</>''),
      sqlparse_format = (\<lambda>s reindent. if reindent then CHR 0x0A # s else s),
      humanize = (\<lambda>d. str_nat d @ ''ms''),
      repr_TimeDelta = (\<lambda>d. ''TimeDelta('' @ str_nat d @ '')''),
      str_StackTrace = (\<lambda>st. concat (map StacktraceLine.location st))\<rparr>"

definition sample_frame :: StacktraceLine where
  "sample_frame = \<lparr>StacktraceLine.code = '' run(q)'', StacktraceLine.location = ''app.py:7''\<rparr>"

definition sample_query :: "(nat, nat) Query" where
  "sample_query =
     create ''default'' 12 3 True ''[]'' [] '' SELECT 1 '' ''SELECT 1''
       [sample_frame] 100 112 ''PostgreSQL''"

definition sample_query_empty :: "(nat, nat) Query" where
  "sample_query_empty =
     create ''default'' 12 3 True ''[]'' [] ''SELECT 1'' ''SELECT 1'' [] 100 112 ''mysql''"

text \<open>Option sets: nothing on; only the sql section, plain; only the code section, plain.\<close>

definition no_sections :: display_options where
  "no_sections =
     \<lparr>opt_code = False, opt_duration = False, opt_idx = False, opt_location = False,
      opt_stacktrace = False, opt_sql = False, opt_colored = True, opt_formatted = True\<rparr>"

definition sql_only_plain :: display_options where
  "sql_only_plain = no_sections\<lparr>opt_sql := True, opt_colored := False\<rparr>"

definition code_only_plain :: display_options where
  "code_only_plain = no_sections\<lparr>opt_code := True, opt_colored := False\<rparr>"

text \<open>
  Every section on, plain; the location and sql sections, plain; a record whose SQL is
  whitespace only.
\<close>

definition all_plain :: display_options where
  "all_plain =
     \<lparr>opt_code = True, opt_duration = True, opt_idx = True, opt_location = True,
      opt_stacktrace = True, opt_sql = True, opt_colored = False, opt_formatted = True\<rparr>"

definition location_sql_plain :: display_options where
  "location_sql_plain =
     no_sections\<lparr>opt_location := True, opt_sql := True, opt_colored := False\<rparr>"

definition sample_query_blank :: "(nat, nat) Query" where
  "sample_query_blank =
     create ''default'' 12 3 True ''[]'' [] [CHR 0x20, CHR 0x0A] ''%s'' [sample_frame] 100 112
       ''mysql''"




text \<open>A record whose SQL holds a string literal.\<close>

definition sample_query_literal :: "(nat, nat) Query" where
  "sample_query_literal =
     create ''default'' 12 3 True ''[]'' [] (''SELECT '' @ [squote] @ ''a'' @ [squote])
       ''SELECT %s'' [] 100 112 ''mysql''"

section \<open>Properties of \<open>Query.create\<close>\<close>

text \<open>
  C1. For a non-empty stack trace the record made by \<open>Query.create\<close> has the \<open>code\<close> and the
  \<open>location()\<close> of the last frame; for an empty stack trace both fields are the empty
  string of the null frame. Every other field is the argument of the same name.
\<close>

theorem create_fields:
  "(let q = (create db' duration' idx' is_select' params' raw_params' sql' sql_parameterized'
               stacktrace' start_time' stop_time' db_type' :: ('d, 'p) Query)
    in (stacktrace' \<noteq> [] \<longrightarrow>
          code q = StacktraceLine.code (last stacktrace') \<and>
          location q = StacktraceLine.location (last stacktrace'))
       \<and> (stacktrace' = [] \<longrightarrow> code q = [] \<and> location q = [])
       \<and> db q = db' \<and> duration q = duration' \<and> idx q = idx' \<and> is_select q = is_select'
       \<and> params q = params' \<and> raw_params q = raw_params' \<and> sql q = sql'
       \<and> sql_parameterized q = sql_parameterized' \<and> stacktrace q = stacktrace'
       \<and> start_time q = start_time' \<and> stop_time q = stop_time' \<and> db_type q = db_type')"
  by (simp add: create_def null_def Let_def)

theorem create_fields_witness:
  "code sample_query = '' run(q)'' \<and> location sample_query = ''app.py:7''
   \<and> code sample_query_empty = [] \<and> location sample_query_empty = []
   \<and> sql sample_query = '' SELECT 1 '' \<and> db_type sample_query_empty = ''mysql''"
  using create_fields [where ?'d = nat and ?'p = nat and stacktrace' = "[sample_frame]"
          and db' = "''default''" and duration' = 12 and idx' = 3 and is_select' = True
          and params' = "''[]''" and raw_params' = "[]" and sql' = "'' SELECT 1 ''"
          and sql_parameterized' = "''SELECT 1''" and start_time' = 100 and stop_time' = 112
          and db_type' = "''PostgreSQL''"]
        create_fields [where ?'d = nat and ?'p = nat and stacktrace' = "[]"
          and db' = "''default''" and duration' = 12 and idx' = 3 and is_select' = True
          and params' = "''[]''" and raw_params' = "[]" and sql' = "''SELECT 1''"
          and sql_parameterized' = "''SELECT 1''" and start_time' = 100 and stop_time' = 112
          and db_type' = "''mysql''"]
  by (simp add: sample_query_def sample_query_empty_def sample_frame_def Let_def)

section \<open>String lemmas\<close>

lemma rstrip_by_idem: "rstrip_by P (rstrip_by P s) = rstrip_by P s"
  by (simp add: rstrip_by_def)

lemma py_rstrip_py_strip: "py_rstrip (py_strip s) = py_strip s"
  by (simp add: py_rstrip_def py_strip_def strip_by_def rstrip_by_idem)

lemma rstrip_by_noop: "s = [] \<or> \<not> P (last s) \<Longrightarrow> rstrip_by P s = s"
  by (cases s rule: rev_cases) (simp_all add: rstrip_by_def)

lemma lstrip_by_noop: "s = [] \<or> \<not> P (hd s) \<Longrightarrow> lstrip_by P s = s"
  by (cases s) (simp_all add: lstrip_by_def)

lemma strip_by_noop: "s = [] \<or> (\<not> P (hd s) \<and> \<not> P (last s)) \<Longrightarrow> strip_by P s = s"
  by (auto simp add: strip_by_def lstrip_by_noop rstrip_by_noop)

lemma length_rstrip_by: "length (rstrip_by P s) \<le> length s"
  using length_dropWhile_le [of P "rev s"] by (simp add: rstrip_by_def)

lemma length_strip_by: "length (strip_by P s) \<le> length s"
  using length_rstrip_by [of P "lstrip_by P s"] length_dropWhile_le [of P s]
  by (simp add: strip_by_def lstrip_by_def)

lemma last_rstrip_by: "rstrip_by P s \<noteq> [] \<Longrightarrow> \<not> P (last (rstrip_by P s))"
  by (simp add: rstrip_by_def last_rev hd_dropWhile)

lemma rstrip_by_prefix: "s = rstrip_by P s @ rev (takeWhile P (rev s))"
proof -
  have "rev (dropWhile P (rev s)) @ rev (takeWhile P (rev s)) =
      rev (takeWhile P (rev s) @ dropWhile P (rev s))"
    by (simp only: rev_append)
  also have "\<dots> = s"
    by (simp only: takeWhile_dropWhile_id rev_rev_ident)
  finally show ?thesis by (simp add: rstrip_by_def)
qed

lemma hd_rstrip_by: "rstrip_by P s \<noteq> [] \<Longrightarrow> hd (rstrip_by P s) = hd s"
  using rstrip_by_prefix [of s P] by (metis hd_append2)

lemma strip_by_ends:
  "strip_by P s \<noteq> [] \<Longrightarrow> \<not> P (hd (strip_by P s)) \<and> \<not> P (last (strip_by P s))"
proof -
  assume a: "strip_by P s \<noteq> []"
  then have b: "lstrip_by P s \<noteq> []" by (auto simp add: strip_by_def rstrip_by_def)
  have "\<not> P (hd (lstrip_by P s))" using b by (simp add: lstrip_by_def hd_dropWhile)
  then show ?thesis
    using a hd_rstrip_by [of P "lstrip_by P s"] last_rstrip_by [of P "lstrip_by P s"]
    by (simp add: strip_by_def)
qed

lemma rstrip_by_append_class: "list_all P suf \<Longrightarrow> rstrip_by P (t @ suf) = rstrip_by P t"
  using dropWhile_append2 [of "rev suf" P "rev t"] by (simp add: rstrip_by_def list_all_iff)

lemma lstrip_by_append_class: "list_all P pre \<Longrightarrow> lstrip_by P (pre @ t) = lstrip_by P t"
  using dropWhile_append2 [of pre P t] by (simp add: lstrip_by_def list_all_iff)

lemma lstrip_by_class: "list_all P s \<Longrightarrow> lstrip_by P s = []"
  by (simp add: lstrip_by_def list_all_iff)

lemma list_all_takeWhile: "list_all P (takeWhile P xs)"
  by (induction xs) simp_all

text \<open>
  The whitespace class of the model is the list of whitespace characters; the strip, the
  right strip and the join of the model are the ones the specification words, and the
  only ones.
\<close>

lemma py_isspace_whitespace: "py_isspace c = whitespace c"
proof -
  define n where "n = (of_char c :: nat)"
  have c: "c = char_of n" by (simp add: n_def)
  have n256: "n < 256" by (simp add: n_def)
  have k: "\<And>d. (char_of n = d) = (n = of_char d)"
    using n256 by (auto simp add: char_of_eq_iff take_bit_eq_mod)
  have 1: "py_isspace c \<longleftrightarrow>
      (9 \<le> n \<and> n \<le> 13) \<or> (28 \<le> n \<and> n \<le> 32) \<or> n = 133 \<or> n = 160"
    by (simp add: py_isspace_def n_def Let_def)
  have 2: "whitespace c \<longleftrightarrow> n \<in> {9, 10, 11, 12, 13, 28, 29, 30, 31, 32, 133, 160}"
    unfolding whitespace_def whitespace_chars_def c
    by (simp add: k)
  show ?thesis unfolding 1 2 by auto
qed

lemma py_isspace_eq: "py_isspace = whitespace"
  by (rule ext) (rule py_isspace_whitespace)

lemma strips_to_strip_by: "strips_to a (strip_by whitespace a)"
proof -
  let ?t = "strip_by whitespace a"
  let ?pre = "takeWhile whitespace a"
  let ?suf = "rev (takeWhile whitespace (rev (dropWhile whitespace a)))"
  have "a = ?pre @ dropWhile whitespace a" by simp
  also have "dropWhile whitespace a = ?t @ ?suf"
    using rstrip_by_prefix [of "dropWhile whitespace a" whitespace]
    by (simp add: strip_by_def lstrip_by_def)
  finally have 1: "a = ?pre @ ?t @ ?suf" .
  have 2: "list_all whitespace ?pre" by (rule list_all_takeWhile)
  have 3: "list_all whitespace ?suf"
    using list_all_takeWhile [of whitespace "rev (dropWhile whitespace a)"]
    by (simp add: list_all_iff)
  have 4: "?t = [] \<or> (\<not> whitespace (hd ?t) \<and> \<not> whitespace (last ?t))"
    using strip_by_ends [of whitespace a] by blast
  show ?thesis
    unfolding strips_to_def using 1 2 3 4 by blast
qed

lemma rstrips_to_rstrip_by: "rstrips_to a (rstrip_by whitespace a)"
proof -
  have 1: "a = rstrip_by whitespace a @ rev (takeWhile whitespace (rev a))"
    by (rule rstrip_by_prefix)
  have 2: "list_all whitespace (rev (takeWhile whitespace (rev a)))"
    using list_all_takeWhile [of whitespace "rev a"] by (simp add: list_all_iff)
  have 3: "rstrip_by whitespace a = [] \<or> \<not> whitespace (last (rstrip_by whitespace a))"
    using last_rstrip_by [of whitespace a] by blast
  show ?thesis
    unfolding rstrips_to_def using 1 2 3 by blast
qed

lemma strips_to_py_strip: "strips_to a (py_strip a)"
  by (simp add: py_strip_def py_isspace_eq strips_to_strip_by)

lemma rstrips_to_py_rstrip: "rstrips_to a (py_rstrip a)"
  by (simp add: py_rstrip_def py_isspace_eq rstrips_to_rstrip_by)

lemma py_join_blank_line: "py_join blank_line xs = join_with_blank_line xs"
  by (induction blank_line xs rule: py_join.induct)
    (simp_all add: join_with_blank_line_def blank_line_def)

lemma rstrips_to_unique: "rstrips_to a t \<Longrightarrow> t = rstrip_by whitespace a"
proof -
  assume "rstrips_to a t"
  then obtain suf where a: "a = t @ suf" and s: "list_all whitespace suf"
    and e: "t = [] \<or> \<not> whitespace (last t)"
    unfolding rstrips_to_def by blast
  have "rstrip_by whitespace a = rstrip_by whitespace t"
    unfolding a using s by (rule rstrip_by_append_class)
  also have "\<dots> = t" using e by (rule rstrip_by_noop)
  finally show ?thesis by simp
qed

lemma strips_to_unique: "strips_to a t \<Longrightarrow> t = strip_by whitespace a"
proof -
  assume "strips_to a t"
  then obtain pre suf where a: "a = pre @ t @ suf" and p: "list_all whitespace pre"
    and s: "list_all whitespace suf"
    and e: "t = [] \<or> (\<not> whitespace (hd t) \<and> \<not> whitespace (last t))"
    unfolding strips_to_def by blast
  have 1: "lstrip_by whitespace a = lstrip_by whitespace (t @ suf)"
    unfolding a using p by (rule lstrip_by_append_class)
  show ?thesis
  proof (cases "t = []")
    case True
    then have "lstrip_by whitespace a = []" using 1 s by (simp add: lstrip_by_class)
    then show ?thesis using True by (simp add: strip_by_def rstrip_by_def)
  next
    case False
    then have "hd (t @ suf) = hd t" by simp
    then have "lstrip_by whitespace (t @ suf) = t @ suf"
      using e False lstrip_by_noop [of "t @ suf" whitespace] by simp
    then have "strip_by whitespace a = rstrip_by whitespace (t @ suf)"
      using 1 by (simp add: strip_by_def)
    also have "\<dots> = rstrip_by whitespace t" using s by (rule rstrip_by_append_class)
    also have "\<dots> = t" using e False rstrip_by_noop [of t whitespace] by simp
    finally show ?thesis by simp
  qed
qed

lemma report_of_unique:
  "report_of sections out \<Longrightarrow>
     out = rstrip_by whitespace (join_with_blank_line (map (strip_by whitespace) sections))"
proof -
  assume "report_of sections out"
  then obtain stripped where l: "list_all2 strips_to sections stripped"
    and r: "rstrips_to (join_with_blank_line stripped) out"
    unfolding report_of_def by blast
  have "stripped = map (strip_by whitespace) sections"
    using l by (induction rule: list_all2_induct) (auto dest: strips_to_unique)
  then show ?thesis using r rstrips_to_unique by simp
qed

text \<open>
  \<open>lower\<close> sends exactly a lower-case ASCII letter and its capital to that letter: no other
  character of the range lower-cases into ASCII.
\<close>

lemma lower_char_ascii:
  assumes "97 \<le> (of_char d :: nat)" and "(of_char d :: nat) \<le> 122"
  shows "lower_char c = d \<longleftrightarrow> (c = d \<or> (of_char c :: nat) + 32 = of_char d)"
proof -
  define n where "n = (of_char c :: nat)"
  have n256: "n < 256" by (simp add: n_def)
  have cd: "c = d \<Longrightarrow> n = of_char d" by (simp add: n_def)
  show ?thesis
  proof (cases "(65 \<le> n \<and> n \<le> 90) \<or> (192 \<le> n \<and> n \<le> 222 \<and> n \<noteq> 215)")
    case True
    then have l: "lower_char c = char_of (n + 32)"
      unfolding lower_char_def Let_def n_def by simp
    have ne: "c \<noteq> d" using True cd assms by auto
    have "char_of (n + 32) = d \<longleftrightarrow> n + 32 = of_char d"
    proof
      assume "char_of (n + 32) = d"
      then have "(of_char (char_of (n + 32)) :: nat) = of_char d" by simp
      then have "(n + 32) mod 256 = of_char d" by simp
      then show "n + 32 = of_char d" using True assms n256 by auto
    next
      assume "n + 32 = of_char d"
      then have "char_of (n + 32) = char_of (of_char d :: nat)" by simp
      then show "char_of (n + 32) = d" by simp
    qed
    then show ?thesis using l ne by (simp add: n_def)
  next
    case False
    then have l: "lower_char c = c"
      unfolding lower_char_def Let_def n_def by (simp only: if_False)
    have "n + 32 \<noteq> of_char d" using False assms by auto
    then show ?thesis using l by (simp add: n_def)
  qed
qed

lemma py_lower_postgresql:
  "py_lower s = ''postgresql'' \<longleftrightarrow> list_all2 same_letter s ''postgresql''"
  by (simp add: py_lower_def map_eq_Cons_conv list_all2_Cons2 same_letter_def lower_char_ascii)

section \<open>Properties of the report\<close>

lemma display_attributes_receiver: "snd (display_attributes E opts self) = self"
  by (simp add: display_attributes_def enhanced_sql_def Let_def)

lemma display_attributes_spec: "fst (display_attributes E opts self) = spec_sections E opts self"
  by (simp add: display_attributes_def spec_sections_def spec_code_section_def
      spec_sql_section_def enhanced_sql_def Let_def)

lemma display_string_fst:
  "fst (display_string E opts self) =
     py_rstrip (py_join blank_line (map py_strip (fst (display_attributes E opts self))))"
  by (simp add: display_string_def case_prod_beta)

lemma display_string_snd: "snd (display_string E opts self) = snd (display_attributes E opts self)"
  by (simp add: display_string_def case_prod_beta)

lemma display_string_is_report:
  "report_of (spec_sections E opts self) (fst (display_string E opts self))"
proof -
  let ?stripped = "map py_strip (spec_sections E opts self)"
  have 1: "list_all2 strips_to (spec_sections E opts self) ?stripped"
    by (simp add: list_all2_conv_all_nth strips_to_py_strip)
  have 2: "fst (display_string E opts self) = py_rstrip (join_with_blank_line ?stripped)"
    by (simp add: display_string_fst display_attributes_spec py_join_blank_line)
  have 3: "rstrips_to (join_with_blank_line ?stripped) (fst (display_string E opts self))"
    unfolding 2 by (rule rstrips_to_py_rstrip)
  show ?thesis
    unfolding report_of_def using 1 3 by blast
qed

text \<open>
  C3. The result of \<open>display_string\<close> is the report of the specification, and the only
  one: the sections whose flag is on, in the order index, duration, location, code,
  stacktrace, sql (an empty section is kept), each stripped of leading and trailing
  whitespace, joined by two line feeds, and the joined text stripped of trailing
  whitespace.
\<close>

theorem display_string_report:
  "report_of (spec_sections E opts self) (fst (display_string E opts self))
   \<and> (\<forall>out. report_of (spec_sections E opts self) out
          \<longrightarrow> out = fst (display_string E opts self))"
proof -
  have 1: "report_of (spec_sections E opts self) (fst (display_string E opts self))"
    by (rule display_string_is_report)
  have 2: "out = fst (display_string E opts self)"
    if "report_of (spec_sections E opts self) out" for out
    using report_of_unique [OF that] report_of_unique [OF 1] by simp
  show ?thesis using 1 2 by blast
qed

theorem display_string_report_witness:
  "spec_sections sample_collaborators all_plain sample_query =
     [''index: 3'', ''12ms'', ''app.py:7'', '' run(q)'', ''app.py:7'', '' SELECT 1 '']
   \<and> fst (display_string sample_collaborators all_plain sample_query) =
       ''index: 3'' @ [CHR 0x0A, CHR 0x0A] @ ''12ms'' @ [CHR 0x0A, CHR 0x0A] @ ''app.py:7''
         @ [CHR 0x0A, CHR 0x0A] @ ''run(q)'' @ [CHR 0x0A, CHR 0x0A] @ ''app.py:7''
         @ [CHR 0x0A, CHR 0x0A] @ ''SELECT 1''
   \<and> report_of (spec_sections sample_collaborators all_plain sample_query)
       (fst (display_string sample_collaborators all_plain sample_query))
   \<and> spec_sections sample_collaborators location_sql_plain sample_query_blank =
       [''app.py:7'', [CHR 0x20, CHR 0x0A]]
   \<and> fst (display_string sample_collaborators location_sql_plain sample_query_blank) =
       ''app.py:7''
   \<and> report_of (spec_sections sample_collaborators location_sql_plain sample_query_blank)
       (fst (display_string sample_collaborators location_sql_plain sample_query_blank))"
proof -
  have 1: "spec_sections sample_collaborators all_plain sample_query =
     [''index: 3'', ''12ms'', ''app.py:7'', '' run(q)'', ''app.py:7'', '' SELECT 1 '']"
    by code_simp
  have 2: "fst (display_string sample_collaborators all_plain sample_query) =
       ''index: 3'' @ [CHR 0x0A, CHR 0x0A] @ ''12ms'' @ [CHR 0x0A, CHR 0x0A] @ ''app.py:7''
         @ [CHR 0x0A, CHR 0x0A] @ ''run(q)'' @ [CHR 0x0A, CHR 0x0A] @ ''app.py:7''
         @ [CHR 0x0A, CHR 0x0A] @ ''SELECT 1''"
    by code_simp
  have 3: "spec_sections sample_collaborators location_sql_plain sample_query_blank =
       [''app.py:7'', [CHR 0x20, CHR 0x0A]]"
    by code_simp
  have 4: "fst (display_string sample_collaborators location_sql_plain sample_query_blank) =
       ''app.py:7''"
    by code_simp
  show ?thesis
    using display_string_report [of sample_collaborators all_plain sample_query]
      display_string_report [of sample_collaborators location_sql_plain sample_query_blank]
      1 2 3 4
    by blast
qed

text \<open>
  C4. With the six section flags off, \<open>display_string\<close> returns the empty string.
\<close>

theorem display_string_no_sections:
  "\<not> opt_idx opts \<and> \<not> opt_duration opts \<and> \<not> opt_location opts \<and> \<not> opt_code opts
     \<and> \<not> opt_stacktrace opts \<and> \<not> opt_sql opts
   \<Longrightarrow> fst (display_string E opts self) = []"
  by (simp add: display_string_fst display_attributes_def py_rstrip_def rstrip_by_def)

theorem display_string_no_sections_witness:
  "fst (display_string sample_collaborators no_sections sample_query) = []"
  using display_string_no_sections [of no_sections sample_collaborators sample_query]
  by (simp add: no_sections_def)

text \<open>
  C10. The string conversion of a record is \<open>display_string\<close> with the code, duration,
  location and sql sections on, the index and stacktrace sections off, and \<open>colored\<close> and
  \<open>formatted\<close> on.
\<close>

theorem str_is_default_display:
  "Query_str E self =
     display_string E
       \<lparr>opt_code = True, opt_duration = True, opt_idx = False, opt_location = True,
        opt_stacktrace = False, opt_sql = True, opt_colored = True, opt_formatted = True\<rparr> self"
  by (simp add: Query_str_def default_options_def)

theorem str_is_default_display_witness:
  "fst (Query_str sample_collaborators sample_query) =
     ''12ms'' @ blank_line @ ''app.py:7'' @ blank_line @ ''<py> run(q)</>'' @ blank_line
       @ ''<pg>'' @ [CHR 0x0A] @ '' SELECT 1 </>''"
  unfolding str_is_default_display by code_simp

text \<open>
  C2, as the code has it. With \<open>sql\<close> on and \<open>colored\<close> off, the last attribute appended is
  the raw \<open>sql\<close> field, and the section that reaches the output is that field stripped of
  leading and trailing whitespace: with no other section on, it is the whole output. It is
  the raw field itself when the field neither starts nor ends with whitespace.
\<close>

theorem sql_section_plain:
  "opt_sql opts \<and> \<not> opt_colored opts \<Longrightarrow>
     fst (display_attributes E opts self) =
       spec_sections E (opts\<lparr>opt_sql := False\<rparr>) self @ [sql self]
     \<and> fst (display_string E opts self) =
         py_rstrip (py_join blank_line
           (map py_strip (spec_sections E (opts\<lparr>opt_sql := False\<rparr>) self) @ [py_strip (sql self)]))
     \<and> (\<not> opt_idx opts \<and> \<not> opt_duration opts \<and> \<not> opt_location opts \<and> \<not> opt_code opts
          \<and> \<not> opt_stacktrace opts \<longrightarrow> fst (display_string E opts self) = py_strip (sql self))
     \<and> (sql self = [] \<or> (\<not> py_isspace (hd (sql self)) \<and> \<not> py_isspace (last (sql self)))
          \<longrightarrow> py_strip (sql self) = sql self)"
proof -
  assume a: "opt_sql opts \<and> \<not> opt_colored opts"
  have 1: "fst (display_attributes E opts self) =
       spec_sections E (opts\<lparr>opt_sql := False\<rparr>) self @ [sql self]"
    using a by (simp add: display_attributes_spec spec_sections_def spec_sql_section_def
        spec_code_section_def)
  have 2: "\<not> opt_idx opts \<and> \<not> opt_duration opts \<and> \<not> opt_location opts \<and> \<not> opt_code opts
          \<and> \<not> opt_stacktrace opts \<Longrightarrow> spec_sections E (opts\<lparr>opt_sql := False\<rparr>) self = []"
    by (simp add: spec_sections_def)
  have 3: "sql self = [] \<or> (\<not> py_isspace (hd (sql self)) \<and> \<not> py_isspace (last (sql self)))
          \<longrightarrow> py_strip (sql self) = sql self"
    by (simp add: py_strip_def strip_by_noop)
  show ?thesis
    using 1 2 3 by (auto simp add: display_string_fst py_rstrip_py_strip)
qed

theorem sql_section_plain_witness:
  "fst (display_string sample_collaborators sql_only_plain sample_query) = py_strip (sql sample_query)
   \<and> fst (display_string sample_collaborators sql_only_plain sample_query_empty) =
       sql sample_query_empty"
proof -
  have o: "opt_sql sql_only_plain \<and> \<not> opt_colored sql_only_plain"
    by (simp add: sql_only_plain_def no_sections_def)
  have n: "\<not> opt_idx sql_only_plain \<and> \<not> opt_duration sql_only_plain
      \<and> \<not> opt_location sql_only_plain \<and> \<not> opt_code sql_only_plain
      \<and> \<not> opt_stacktrace sql_only_plain"
    by (simp add: sql_only_plain_def no_sections_def)
  have e: "\<not> py_isspace (hd (sql sample_query_empty))
      \<and> \<not> py_isspace (last (sql sample_query_empty))"
    by code_simp
  show ?thesis
    using sql_section_plain [OF o, of sample_collaborators sample_query]
      sql_section_plain [OF o, of sample_collaborators sample_query_empty] n e
    by metis
qed

text \<open>
  C2, as stated, fails: for the raw SQL \<open>" SELECT 1 "\<close> the report that has only the
  plain sql section is \<open>"SELECT 1"\<close>, which is not the raw field.
\<close>

theorem sql_section_raw_counterexample:
  "fst (display_string sample_collaborators sql_only_plain sample_query) = ''SELECT 1''
   \<and> sql sample_query = '' SELECT 1 ''
   \<and> fst (display_string sample_collaborators sql_only_plain sample_query) \<noteq> sql sample_query"
  by code_simp

text \<open>
  C7, as the code has it. With \<open>code\<close> on, the attribute appended after the index, duration
  and location sections is the \<open>code\<close> field highlighted with the Python 3 grammar and the
  terminal formatter when \<open>colored\<close> and \<open>formatted\<close> are both on, and the plain \<open>code\<close>
  field otherwise; the section that reaches the output is that attribute stripped of
  leading and trailing whitespace.
\<close>

theorem code_section_content:
  "opt_code opts \<Longrightarrow>
     fst (display_attributes E opts self) =
       spec_sections E (opts\<lparr>opt_code := False, opt_stacktrace := False, opt_sql := False\<rparr>) self
       @ [if opt_colored opts \<and> opt_formatted opts
          then highlight E (code self) Python3Lexer TerminalFormatter
          else code self]
       @ spec_sections E (opts\<lparr>opt_idx := False, opt_duration := False, opt_location := False,
            opt_code := False\<rparr>) self
     \<and> (\<not> opt_idx opts \<and> \<not> opt_duration opts \<and> \<not> opt_location opts \<and> \<not> opt_stacktrace opts
          \<and> \<not> opt_sql opts \<longrightarrow>
          fst (display_string E opts self) =
            py_strip (if opt_colored opts \<and> opt_formatted opts
                      then highlight E (code self) Python3Lexer TerminalFormatter
                      else code self))
     \<and> (code self = [] \<or> (\<not> py_isspace (hd (code self)) \<and> \<not> py_isspace (last (code self)))
          \<longrightarrow> py_strip (code self) = code self)"
proof -
  assume a: "opt_code opts"
  have 1: "fst (display_attributes E opts self) =
       spec_sections E (opts\<lparr>opt_code := False, opt_stacktrace := False, opt_sql := False\<rparr>) self
       @ [if opt_colored opts \<and> opt_formatted opts
          then highlight E (code self) Python3Lexer TerminalFormatter
          else code self]
       @ spec_sections E (opts\<lparr>opt_idx := False, opt_duration := False, opt_location := False,
            opt_code := False\<rparr>) self"
    using a by (simp add: display_attributes_spec spec_sections_def spec_sql_section_def
        spec_code_section_def)
  have 2: "\<not> opt_idx opts \<and> \<not> opt_duration opts \<and> \<not> opt_location opts \<and> \<not> opt_stacktrace opts
          \<and> \<not> opt_sql opts \<Longrightarrow>
          fst (display_string E opts self) =
            py_strip (if opt_colored opts \<and> opt_formatted opts
                      then highlight E (code self) Python3Lexer TerminalFormatter
                      else code self)"
    using a by (simp add: display_string_fst display_attributes_spec spec_sections_def
        spec_code_section_def py_rstrip_py_strip)
  have 3: "code self = [] \<or> (\<not> py_isspace (hd (code self)) \<and> \<not> py_isspace (last (code self)))
          \<longrightarrow> py_strip (code self) = code self"
    by (simp add: py_strip_def strip_by_noop)
  show ?thesis
    using 1 2 3 by blast
qed

theorem code_section_content_witness:
  "fst (display_string sample_collaborators code_only_plain sample_query) =
     py_strip (code sample_query)
   \<and> fst (display_string sample_collaborators (no_sections\<lparr>opt_code := True\<rparr>) sample_query) =
       py_strip (highlight sample_collaborators (code sample_query) Python3Lexer TerminalFormatter)"
proof -
  have p: "opt_code code_only_plain \<and> \<not> opt_colored code_only_plain
      \<and> \<not> opt_idx code_only_plain \<and> \<not> opt_duration code_only_plain
      \<and> \<not> opt_location code_only_plain \<and> \<not> opt_stacktrace code_only_plain
      \<and> \<not> opt_sql code_only_plain"
    by (simp add: code_only_plain_def no_sections_def)
  let ?h = "no_sections\<lparr>opt_code := True\<rparr>"
  have h: "opt_code ?h \<and> opt_colored ?h \<and> opt_formatted ?h
      \<and> \<not> opt_idx ?h \<and> \<not> opt_duration ?h \<and> \<not> opt_location ?h \<and> \<not> opt_stacktrace ?h
      \<and> \<not> opt_sql ?h"
    by (simp add: no_sections_def)
  have 1: "fst (display_string sample_collaborators code_only_plain sample_query) =
      py_strip (code sample_query)"
    using code_section_content [of code_only_plain sample_collaborators sample_query] p by simp
  have 2: "fst (display_string sample_collaborators ?h sample_query) =
       py_strip (highlight sample_collaborators (code sample_query) Python3Lexer TerminalFormatter)"
    using code_section_content [of ?h sample_collaborators sample_query] h by simp
  show ?thesis using 1 2 by simp
qed

text \<open>
  C7, as stated, fails: for the code field \<open>" run(q)"\<close> the report that has only the plain
  code section is \<open>"run(q)"\<close>, which is not the unmodified field.
\<close>

theorem code_section_unmodified_counterexample:
  "fst (display_string sample_collaborators code_only_plain sample_query) = ''run(q)''
   \<and> code sample_query = '' run(q)''
   \<and> fst (display_string sample_collaborators code_only_plain sample_query) \<noteq> code sample_query"
  by code_simp

section \<open>Properties of \<open>_enhanced_sql\<close>\<close>

text \<open>
  C5. \<open>_enhanced_sql\<close> takes the PostgreSQL grammar exactly when the lower-cased \<open>db_type\<close>
  is \<open>"postgresql"\<close>, that is, when \<open>db_type\<close> spells \<open>postgresql\<close> letter by letter in
  either case, and the generic SQL grammar for every other \<open>db_type\<close>; there is no error
  branch. That grammar is the one the highlighter receives.
\<close>

theorem enhanced_sql_lexer_selection:
  "(enhanced_sql_lexer self = PostgresLexer \<longleftrightarrow> py_lower (db_type self) = ''postgresql'')
   \<and> (enhanced_sql_lexer self = PostgresLexer \<longleftrightarrow>
        list_all2 same_letter (db_type self) ''postgresql'')
   \<and> (enhanced_sql_lexer self = SqlLexer \<longleftrightarrow> py_lower (db_type self) \<noteq> ''postgresql'')
   \<and> fst (enhanced_sql E formatted True self) =
       highlight E (if formatted then sqlparse_format E (sql self) True else sql self)
         (enhanced_sql_lexer self) TerminalFormatter"
proof -
  have 1: "enhanced_sql_lexer self = PostgresLexer \<longleftrightarrow> py_lower (db_type self) = ''postgresql''"
    by (simp add: enhanced_sql_lexer_def)
  have 2: "enhanced_sql_lexer self = SqlLexer \<longleftrightarrow> py_lower (db_type self) \<noteq> ''postgresql''"
    by (simp add: enhanced_sql_lexer_def)
  have 3: "fst (enhanced_sql E formatted True self) =
       highlight E (if formatted then sqlparse_format E (sql self) True else sql self)
         (enhanced_sql_lexer self) TerminalFormatter"
    by (simp add: enhanced_sql_def Let_def)
  show ?thesis
    using 1 2 3 py_lower_postgresql [of "db_type self"] by simp
qed

theorem enhanced_sql_lexer_selection_witness:
  "db_type sample_query = ''PostgreSQL'' \<and> enhanced_sql_lexer sample_query = PostgresLexer
   \<and> db_type sample_query_empty = ''mysql'' \<and> enhanced_sql_lexer sample_query_empty = SqlLexer"
proof -
  have 1: "py_lower (db_type sample_query) = ''postgresql''" by code_simp
  have 2: "py_lower (db_type sample_query_empty) \<noteq> ''postgresql''" by code_simp
  have 3: "db_type sample_query = ''PostgreSQL''" by code_simp
  have 4: "db_type sample_query_empty = ''mysql''" by code_simp
  show ?thesis
    using enhanced_sql_lexer_selection [of sample_query sample_collaborators True]
      enhanced_sql_lexer_selection [of sample_query_empty sample_collaborators True] 1 2 3 4
    by blast
qed




section \<open>The record after a display call\<close>

text \<open>
  C9. \<open>display_string\<close>, \<open>_enhanced_sql\<close>, \<open>__repr__\<close> and \<open>__str__\<close> hand the record back as
  they received it: no field is changed.
\<close>

theorem display_leaves_record:
  "snd (display_string E opts self) = self
   \<and> snd (enhanced_sql E formatted colored self) = self
   \<and> snd (Query_repr E self) = self
   \<and> snd (Query_str E self) = self"
  by (simp add: display_string_snd display_attributes_receiver enhanced_sql_def Query_repr_def
      Query_str_def Let_def)

theorem display_leaves_record_witness:
  "snd (display_string sample_collaborators default_options sample_query) = sample_query
   \<and> snd (enhanced_sql sample_collaborators True True sample_query) = sample_query
   \<and> snd (Query_repr sample_collaborators sample_query) = sample_query
   \<and> snd (Query_str sample_collaborators sample_query) = sample_query"
  using display_leaves_record [of sample_collaborators default_options sample_query True True]
  by simp

section \<open>Properties of \<open>__repr__\<close>\<close>

text \<open>
  The excerpt is a slice and a strip, both total; it has at most 30 characters, it neither
  starts nor ends with a single quote, and the representation ends with the excerpt, three
  dots, a single quote and a parenthesis.
\<close>

lemma truncated_sql_length: "length (truncated_sql self) \<le> 30"
  using length_strip_by [of "\<lambda>c. List.member [squote] c" "take 30 (py_repr (sql self))"]
  by (simp add: truncated_sql_def py_strip_chars_def)

lemma truncated_sql_ends:
  "truncated_sql self \<noteq> [] \<Longrightarrow>
     hd (truncated_sql self) \<noteq> squote \<and> last (truncated_sql self) \<noteq> squote"
  using strip_by_ends [of "\<lambda>c. List.member [squote] c" "take 30 (py_repr (sql self))"]
  by (simp add: truncated_sql_def py_strip_chars_def)

lemma Query_repr_ellipsis:
  "\<exists>pre. fst (Query_repr E self) = pre @ truncated_sql self @ ''...'' @ [squote] @ '')''"
  unfolding Query_repr_def fst_conv
  by (metis append.assoc)

text \<open>
  C8. The excerpt does not always lose the quotes \<open>repr\<close> put around the SQL: \<open>repr\<close>
  delimits a string that holds a single quote and no double quote with double quotes,
  and \<open>strip("'")\<close> removes single quotes only. For the SQL \<open>SELECT 'a'\<close> the excerpt is
  the whole \<open>repr\<close>, double quotes included.
\<close>

theorem truncated_sql_keeps_double_quotes:
  "sql sample_query_literal = ''SELECT '' @ [squote] @ ''a'' @ [squote]
   \<and> py_repr (sql sample_query_literal) =
       [dquote] @ ''SELECT '' @ [squote] @ ''a'' @ [squote] @ [dquote]
   \<and> truncated_sql sample_query_literal =
       [dquote] @ ''SELECT '' @ [squote] @ ''a'' @ [squote] @ [dquote]
   \<and> fst (Query_repr sample_collaborators sample_query_literal) =
       ''Query(idx=3, code='' @ [squote, squote] @ '', duration=TimeDelta(12), location=''
         @ [squote, squote] @ '', sql='' @ [squote, dquote] @ ''SELECT '' @ [squote] @ ''a''
         @ [squote, dquote] @ ''...'' @ [squote] @ '')''"
  by code_simp

end
